theory Spec2Isabelle
  imports Complex_Main "HOL-Library.AList" "HOL-Library.Sublist"
begin

section \<open>Values\<close>

text \<open>
  Python floats. The code only compares them (\<open>payload.amount <= 0\<close>, the bounds
  \<open>gt=0\<close> and \<open>ge=0\<close> of the schema) and never adds or multiplies them, so a
  finite float is the rational it denotes and the comparisons below are exact. The two
  zeros are the one value \<open>Finite 0\<close>; every comparison with \<open>NaN\<close> is false.
\<close>

datatype pyfloat = Finite rat | PosInf | NegInf | NaN

fun float_le :: "pyfloat \<Rightarrow> pyfloat \<Rightarrow> bool" where
  "float_le NaN y = False"
| "float_le x NaN = False"
| "float_le NegInf y = True"
| "float_le x PosInf = True"
| "float_le (Finite a) (Finite b) = (a \<le> b)"
| "float_le x y = False"

fun float_lt :: "pyfloat \<Rightarrow> pyfloat \<Rightarrow> bool" where
  "float_lt NaN y = False"
| "float_lt x NaN = False"
| "float_lt x NegInf = False"
| "float_lt NegInf y = True"
| "float_lt PosInf y = False"
| "float_lt (Finite a) PosInf = True"
| "float_lt (Finite a) (Finite b) = (a < b)"

text \<open>
  The values a stored document holds (\<open>Dict[str, Any]\<close>). Object ids and datetimes
  are kept abstract (\<open>'oid\<close>, \<open>'dt\<close>): the code applies \<open>str\<close> to the one and
  \<open>isoformat\<close> to the other, and both are parameters of \<open>serialize_doc\<close> below.
  A dict is an association list in insertion order, with distinct keys.
\<close>

datatype ('oid, 'dt) pyval =
    VNone
  | VBool bool
  | VInt int
  | VFloat pyfloat
  | VStr string
  | VObjectId 'oid
  | VDatetime 'dt
  | VList "('oid, 'dt) pyval list"
  | VDict "(string \<times> ('oid, 'dt) pyval) list"

type_synonym ('oid, 'dt) dict = "(string \<times> ('oid, 'dt) pyval) list"

section \<open>Errors\<close>

text \<open>
  \<open>HTTPException(status_code, detail)\<close> is raised by the handlers; a pydantic
  \<open>ValidationError\<close> carries one line per violated constraint: where (a field, or an
  item of a list field) and which constraint.
\<close>

datatype loc = Field string | Item string nat

type_synonym line_error = "loc \<times> string"

datatype error = HTTPException nat string | ValidationError "line_error list"

type_synonym 'a validated = "line_error list + 'a"

section \<open>schemas.py\<close>

subsection \<open>Field validation\<close>

text \<open>
  A model validates its fields in the order of their declaration and gathers the errors
  of all of them: \<open>collect\<close> applies the constructor built so far to the next field,
  or appends that field's errors.
\<close>

definition collect :: "('a \<Rightarrow> 'b) validated \<Rightarrow> 'a validated \<Rightarrow> 'b validated" where
  "collect f x =
     (case f of
        Inr g \<Rightarrow> (case x of Inr v \<Rightarrow> Inr (g v) | Inl es \<Rightarrow> Inl es)
      | Inl es \<Rightarrow> (case x of Inr v \<Rightarrow> Inl es | Inl es' \<Rightarrow> Inl (es @ es')))"

definition model_validate :: "'a validated \<Rightarrow> error + 'a" where
  "model_validate r = (case r of Inl es \<Rightarrow> Inl (ValidationError es) | Inr v \<Rightarrow> Inr v)"

text \<open>
  A keyword argument is \<open>None\<close> when the call leaves it out. \<open>Field(...)\<close> makes the
  field required; a field with a default takes it, unvalidated, when left out.
\<close>

definition required :: "loc \<Rightarrow> (loc \<Rightarrow> 'a \<Rightarrow> 'b validated) \<Rightarrow> 'a option \<Rightarrow> 'b validated" where
  "required l check arg = (case arg of None \<Rightarrow> Inl [(l, ''missing'')] | Some v \<Rightarrow> check l v)"

definition with_default ::
  "'b \<Rightarrow> loc \<Rightarrow> (loc \<Rightarrow> 'a \<Rightarrow> 'b validated) \<Rightarrow> 'a option \<Rightarrow> 'b validated" where
  "with_default d l check arg = (case arg of None \<Rightarrow> Inr d | Some v \<Rightarrow> check l v)"

definition str_type :: "loc \<Rightarrow> string \<Rightarrow> string validated" where
  "str_type l v = Inr v"

text \<open>
  \<open>EmailStr\<close>: the check is the email-validator library's, a parameter here:
  \<open>validate_email s\<close> is \<open>None\<close> when \<open>s\<close> is not an address and the normalised
  address otherwise; the field holds the normalised address.
\<close>

definition EmailStr :: "(string \<Rightarrow> string option) \<Rightarrow> loc \<Rightarrow> string \<Rightarrow> string validated" where
  "EmailStr validate_email l v =
     (case validate_email v of None \<Rightarrow> Inl [(l, ''value_error'')] | Some n \<Rightarrow> Inr n)"

definition Literal :: "string list \<Rightarrow> loc \<Rightarrow> string \<Rightarrow> string validated" where
  "Literal allowed l v = (if v \<in> set allowed then Inr v else Inl [(l, ''literal_error'')])"

definition float_ge :: "pyfloat \<Rightarrow> loc \<Rightarrow> pyfloat \<Rightarrow> pyfloat validated" where
  "float_ge bound l v = (if float_le bound v then Inr v else Inl [(l, ''greater_than_equal'')])"

definition float_gt :: "pyfloat \<Rightarrow> loc \<Rightarrow> pyfloat \<Rightarrow> pyfloat validated" where
  "float_gt bound l v = (if float_lt bound v then Inr v else Inl [(l, ''greater_than'')])"

fun validate_items ::
  "(loc \<Rightarrow> 'a \<Rightarrow> 'b validated) \<Rightarrow> string \<Rightarrow> nat \<Rightarrow> 'a list \<Rightarrow> 'b list validated" where
  "validate_items check f i [] = Inr []"
| "validate_items check f i (v # vs) =
     collect (collect (Inr (#)) (check (Item f i) v)) (validate_items check f (Suc i) vs)"

definition List_of :: "(loc \<Rightarrow> 'a \<Rightarrow> 'b validated) \<Rightarrow> string \<Rightarrow> loc \<Rightarrow> 'a list \<Rightarrow> 'b list validated" where
  "List_of check f l vs = validate_items check f 0 vs"

subsection \<open>The models\<close>

record Group =
  name :: string
  created_by :: string
  members :: "string list"
  default_currency :: string
  image_url :: "string option"

record SplitItem =
  user :: string
  type :: string
  share :: pyfloat

record 'dt Expense =
  group_id :: string
  description :: string
  amount :: pyfloat
  currency :: string
  paid_by :: string
  date :: "'dt option"
  splits :: "SplitItem list"
  "notes" :: "string option"

definition Group_init ::
  "(string \<Rightarrow> string option) \<Rightarrow> string option \<Rightarrow> string option \<Rightarrow> string list option \<Rightarrow>
   string option \<Rightarrow> string option \<Rightarrow> error + Group" where
  "Group_init validate_email name_arg created_by_arg members_arg default_currency_arg image_url_arg =
     model_validate
       (collect (collect (collect (collect (collect
          (Inr (\<lambda>n c m d i.
             \<lparr>name = n, created_by = c, members = m, default_currency = d, image_url = i\<rparr>))
          (required (Field ''name'') str_type name_arg))
          (required (Field ''created_by'') (EmailStr validate_email) created_by_arg))
          (required (Field ''members'') (List_of (EmailStr validate_email) ''members'') members_arg))
          (with_default ''USD'' (Field ''default_currency'') str_type default_currency_arg))
          (Inr image_url_arg))"

definition SplitItem_init ::
  "(string \<Rightarrow> string option) \<Rightarrow> string option \<Rightarrow> string option \<Rightarrow> pyfloat option \<Rightarrow>
   error + SplitItem" where
  "SplitItem_init validate_email user_arg type_arg share_arg =
     model_validate
       (collect (collect (collect
          (Inr (\<lambda>u t s. \<lparr>user = u, type = t, share = s\<rparr>))
          (required (Field ''user'') (EmailStr validate_email) user_arg))
          (with_default ''equal'' (Field ''type'')
             (Literal [''equal'', ''exact'', ''percentage'']) type_arg))
          (with_default (Finite 0) (Field ''share'') (float_ge (Finite 0)) share_arg))"

text \<open>
  \<open>Expense(...)\<close>. The \<open>splits\<close> argument is a list of \<open>SplitItem\<close> instances, which
  pydantic takes as they are; \<open>date\<close> and \<open>notes\<close> are optional and \<open>None\<close> when
  left out.
\<close>

definition Expense_init ::
  "(string \<Rightarrow> string option) \<Rightarrow> string option \<Rightarrow> string option \<Rightarrow> pyfloat option \<Rightarrow>
   string option \<Rightarrow> string option \<Rightarrow> 'dt option \<Rightarrow> SplitItem list option \<Rightarrow> string option \<Rightarrow>
   error + 'dt Expense" where
  "Expense_init validate_email group_id_arg description_arg amount_arg currency_arg paid_by_arg
       date_arg splits_arg notes_arg =
     model_validate
       (collect (collect (collect (collect (collect (collect (collect (collect
          (Inr (\<lambda>g d a c p t s n.
             \<lparr>group_id = g, description = d, amount = a, currency = c, paid_by = p,
              date = t, splits = s, notes = n\<rparr>))
          (required (Field ''group_id'') str_type group_id_arg))
          (required (Field ''description'') str_type description_arg))
          (required (Field ''amount'') (float_gt (Finite 0)) amount_arg))
          (with_default ''USD'' (Field ''currency'') str_type currency_arg))
          (required (Field ''paid_by'') (EmailStr validate_email) paid_by_arg))
          (Inr date_arg))
          (with_default [] (Field ''splits'') (\<lambda>l v. Inr v) splits_arg))
          (Inr notes_arg))"

section \<open>The document store\<close>

text \<open>
  Modelled from the spec: \<open>create_document\<close> of \<open>database.py\<close>, which is not among the
  sources. The spec has \<open>createDocument(collectionName, entity) -> generated identifier\<close>,
  an adapter that keeps every field supplied at write time. Here the store is the list
  of what was written, each entry with its collection and identifier, and the generated
  identifier is the entry's position.
\<close>

datatype 'dt entity = GroupDoc Group | ExpenseDoc "'dt Expense"

type_synonym 'dt database = "(string \<times> nat \<times> 'dt entity) list"

definition create_document :: "string \<Rightarrow> 'dt entity \<Rightarrow> 'dt database \<Rightarrow> nat \<times> 'dt database" where
  "create_document collection_name data db =
     (length db, db @ [(collection_name, length db, data)])"

section \<open>main.py\<close>

subsection \<open>Groups\<close>

record CreateGroup =
  payload_name :: string
  payload_created_by :: string
  payload_members :: "string list"
  payload_default_currency :: string
  payload_image_url :: "string option"

text \<open>
  \<open>dict.fromkeys(ks)\<close>: a dict with the keys of \<open>ks\<close>, each mapped to \<open>None\<close>. A key
  met again keeps its place (\<open>AList.update\<close> overwrites in place and appends a new key).
\<close>

definition dict_fromkeys :: "'k list \<Rightarrow> ('k \<times> unit) list" where
  "dict_fromkeys ks = fold (\<lambda>k d. AList.update k () d) ks []"

text \<open>
  \<open>members = list(dict.fromkeys([*(payload.members or []), payload.created_by]))\<close>
\<close>

definition create_group_members :: "string \<Rightarrow> string list \<Rightarrow> string list" where
  "create_group_members created_by_email member_emails =
     map fst (dict_fromkeys ((if member_emails = [] then [] else member_emails) @ [created_by_email]))"

definition create_group ::
  "(string \<Rightarrow> string option) \<Rightarrow> CreateGroup \<Rightarrow> 'dt database \<Rightarrow> (error + nat) \<times> 'dt database" where
  "create_group validate_email payload db =
     (let ms = create_group_members (payload_created_by payload) (payload_members payload) in
      case Group_init validate_email (Some (payload_name payload)) (Some (payload_created_by payload))
             (Some ms) (Some (payload_default_currency payload)) (payload_image_url payload) of
        Inl e \<Rightarrow> (Inl e, db)
      | Inr g \<Rightarrow>
          (case create_document ''group'' (GroupDoc g) db of
             (gid, db') \<Rightarrow> (Inr gid, db')))"

subsection \<open>Expenses\<close>

record CreateExpense =
  payload_group_id :: string
  payload_description :: string
  payload_amount :: pyfloat
  payload_currency :: string
  payload_paid_by :: string
  payload_date :: "string option"
  payload_splits :: "SplitItem list"
  payload_notes :: "string option"

definition create_expense ::
  "(string \<Rightarrow> string option) \<Rightarrow> CreateExpense \<Rightarrow> 'dt database \<Rightarrow> (error + nat) \<times> 'dt database" where
  "create_expense validate_email payload db =
     (if float_le (payload_amount payload) (Finite 0)
      then (Inl (HTTPException 400 ''Amount must be greater than 0''), db)
      else
        (case Expense_init validate_email (Some (payload_group_id payload))
                (Some (payload_description payload)) (Some (payload_amount payload))
                (Some (payload_currency payload)) (Some (payload_paid_by payload)) None
                (Some (payload_splits payload)) (payload_notes payload) of
           Inl e \<Rightarrow> (Inl e, db)
         | Inr expense \<Rightarrow>
             (case create_document ''expense'' (ExpenseDoc expense) db of
                (eid, db') \<Rightarrow> (Inr eid, db'))))"

text \<open>
  The invariant of the class \<open>SplitItem\<close>: what its constructor has checked of the
  \<open>type\<close> and the \<open>share\<close> of every instance.
\<close>

definition SplitItem_ok :: "SplitItem \<Rightarrow> bool" where
  "SplitItem_ok s =
     (type s \<in> set [''equal'', ''exact'', ''percentage''] \<and> float_le (Finite 0) (share s))"

subsection \<open>Serialization\<close>

text \<open>
  Dicts are mutable objects: the store holds them, a reference is a position in it, and
  every operation on a dict says which object it changes. The values inside a dict are
  not changed by any operation of the code.
\<close>

type_synonym ('oid, 'dt) heap = "('oid, 'dt) dict list"

definition dict_copy :: "nat \<Rightarrow> ('oid, 'dt) heap \<Rightarrow> nat \<times> ('oid, 'dt) heap" where
  \<comment> \<open>\<open>dict(doc)\<close>: a new dict with the items of \<open>doc\<close>\<close>
  "dict_copy a h = (length h, h @ [h ! a])"

definition dict_pop ::
  "nat \<Rightarrow> string \<Rightarrow> ('oid, 'dt) pyval \<Rightarrow> ('oid, 'dt) heap \<Rightarrow> ('oid, 'dt) pyval \<times> ('oid, 'dt) heap" where
  \<comment> \<open>\<open>d.pop(k, default)\<close>\<close>
  "dict_pop a k dflt h =
     (case map_of (h ! a) k of
        None \<Rightarrow> (dflt, h)
      | Some v \<Rightarrow> (v, h[a := AList.delete k (h ! a)]))"

definition dict_setitem ::
  "nat \<Rightarrow> string \<Rightarrow> ('oid, 'dt) pyval \<Rightarrow> ('oid, 'dt) heap \<Rightarrow> ('oid, 'dt) heap" where
  \<comment> \<open>\<open>d[k] = v\<close>\<close>
  "dict_setitem a k v h = h[a := AList.update k v (h ! a)]"

definition dict_items :: "nat \<Rightarrow> ('oid, 'dt) heap \<Rightarrow> (string \<times> ('oid, 'dt) pyval) list" where
  \<comment> \<open>\<open>list(d.items())\<close>: the items as they are now\<close>
  "dict_items a h = h ! a"

definition isoformat_item ::
  "('dt \<Rightarrow> string) \<Rightarrow> nat \<Rightarrow> string \<times> ('oid, 'dt) pyval \<Rightarrow> ('oid, 'dt) heap \<Rightarrow> ('oid, 'dt) heap" where
  \<comment> \<open>the body of the loop: \<open>if isinstance(v, datetime): d[k] = v.isoformat()\<close>\<close>
  "isoformat_item isoformat d kv h =
     (case kv of
        (k, v) \<Rightarrow> (case v of VDatetime t \<Rightarrow> dict_setitem d k (VStr (isoformat t)) h | _ \<Rightarrow> h))"

text \<open>
  \<open>serialize_doc(doc)\<close>, with \<open>doc\<close> a reference to a dict of the store, or \<open>None\<close>.
  \<open>py_str\<close> is Python's \<open>str\<close> and \<open>isoformat\<close> is \<open>datetime.isoformat\<close>.
  \<open>not doc\<close> holds of \<open>None\<close> and of the empty dict.
\<close>

definition serialize_doc ::
  "(('oid, 'dt) pyval \<Rightarrow> string) \<Rightarrow> ('dt \<Rightarrow> string) \<Rightarrow> nat option \<Rightarrow> ('oid, 'dt) heap \<Rightarrow>
   nat option \<times> ('oid, 'dt) heap" where
  "serialize_doc py_str isoformat doc h =
     (case doc of
        None \<Rightarrow> (None, h)
      | Some a \<Rightarrow>
          if h ! a = [] then (Some a, h)
          else
            (case dict_copy a h of
               (d, h1) \<Rightarrow>
                 (case dict_pop d ''_id'' VNone h1 of
                    (oid, h2) \<Rightarrow>
                      (let h3 = (if oid \<noteq> VNone
                                 then dict_setitem d ''id'' (VStr (py_str oid)) h2 else h2);
                           h4 = fold (isoformat_item isoformat d) (dict_items d h3) h3
                       in (Some d, h4)))))"

section \<open>The words of the specification\<close>

text \<open>
  "Removing duplicates while preserving first-occurrence order": every entry stays where
  it first occurs, and its later occurrences go.
\<close>

fun first_occurrences :: "'a list \<Rightarrow> 'a list" where
  "first_occurrences [] = []"
| "first_occurrences (x # xs) = x # first_occurrences (filter (\<lambda>y. y \<noteq> x) xs)"

text \<open>
  "Converts any timestamp field to a standard textual date-time representation": what a
  field's value becomes; any other value stays.
\<close>

definition textual_datetime :: "('dt \<Rightarrow> string) \<Rightarrow> ('oid, 'dt) pyval \<Rightarrow> ('oid, 'dt) pyval" where
  "textual_datetime isoformat v = (case v of VDatetime t \<Rightarrow> VStr (isoformat t) | _ \<Rightarrow> v)"

section \<open>Example inputs\<close>

text \<open>An address check for the examples: a text with an at sign passes, as it is.\<close>

definition simple_email :: "string \<Rightarrow> string option" where
  "simple_email s = (if CHR ''@'' \<in> set s then Some s else None)"

definition example_payload :: "pyfloat \<Rightarrow> SplitItem list \<Rightarrow> CreateExpense" where
  "example_payload a xs =
     \<lparr>payload_group_id = ''g1'', payload_description = ''dinner'', payload_amount = a,
      payload_currency = ''USD'', payload_paid_by = ''p@x.io'',
      payload_date = Some ''2024-05-01T12:00:00'', payload_splits = xs, payload_notes = None\<rparr>"

definition example_expense :: "pyfloat \<Rightarrow> SplitItem list \<Rightarrow> nat Expense" where
  "example_expense a xs =
     \<lparr>group_id = ''g1'', description = ''dinner'', amount = a, currency = ''USD'',
      paid_by = ''p@x.io'', date = None, splits = xs, notes = None\<rparr>"

text \<open>
  A stored document for the examples, with \<open>str\<close> of its object id and the
  \<open>isoformat()\<close> of its datetime.
\<close>

definition example_str :: "(nat, nat) pyval \<Rightarrow> string" where
  "example_str v = (case v of VObjectId n \<Rightarrow> ''65f0c0ffee'' | _ \<Rightarrow> ''?'')"

definition example_isoformat :: "nat \<Rightarrow> string" where
  "example_isoformat t = ''2024-05-01T12:00:00''"

definition example_doc :: "(nat, nat) dict" where
  "example_doc =
     [(''_id'', VObjectId 7), (''name'', VStr ''trip''), (''created_at'', VDatetime 3)]"

section \<open>Facts about field validation\<close>

lemma collect_Inr_iff:
  "collect f x = Inr y \<longleftrightarrow> (\<exists>g v. f = Inr g \<and> x = Inr v \<and> y = g v)"
  by (auto simp: collect_def split: sum.splits)

lemma collect_not_empty:
  "f \<noteq> Inl [] \<Longrightarrow> x \<noteq> Inl [] \<Longrightarrow> collect f x \<noteq> Inl []"
  by (auto simp: collect_def split: sum.splits)

lemma required_not_empty:
  "(\<And>v. check l v \<noteq> Inl []) \<Longrightarrow> required l check arg \<noteq> Inl []"
  by (simp add: required_def split: option.splits)

lemma with_default_not_empty:
  "(\<And>v. check l v \<noteq> Inl []) \<Longrightarrow> with_default d l check arg \<noteq> Inl []"
  by (simp add: with_default_def split: option.splits)

lemma checks_not_empty:
  "str_type l s \<noteq> Inl []" "EmailStr ve l s \<noteq> Inl []" "Literal allowed l s \<noteq> Inl []"
  "float_ge b l x \<noteq> Inl []" "float_gt b l x \<noteq> Inl []"
  by (simp_all add: str_type_def EmailStr_def Literal_def float_ge_def float_gt_def split: option.splits)

lemma model_validate_Inr_iff: "model_validate r = Inr v \<longleftrightarrow> r = Inr v"
  by (simp add: model_validate_def split: sum.splits)

lemma model_validate_cases:
  "r \<noteq> Inl [] \<Longrightarrow> (\<exists>v. model_validate r = Inr v) \<or> (\<exists>es. es \<noteq> [] \<and> model_validate r = Inl (ValidationError es))"
  by (cases r) (simp_all add: model_validate_def)

lemma required_Inr_iff:
  "required l check arg = Inr y \<longleftrightarrow> (\<exists>v. arg = Some v \<and> check l v = Inr y)"
  by (simp add: required_def split: option.splits)

lemma with_default_Inr_iff:
  "with_default d l check arg = Inr y \<longleftrightarrow> (arg = None \<and> y = d) \<or> (\<exists>v. arg = Some v \<and> check l v = Inr y)"
  by (auto simp add: with_default_def split: option.splits)

lemma EmailStr_Inr_iff: "EmailStr ve l v = Inr n \<longleftrightarrow> ve v = Some n"
  by (simp add: EmailStr_def split: option.splits)

lemma float_gt_Inr_iff: "float_gt b l v = Inr y \<longleftrightarrow> float_lt b v \<and> y = v"
  by (auto simp add: float_gt_def)

lemma float_ge_Inr_iff: "float_ge b l v = Inr y \<longleftrightarrow> float_le b v \<and> y = v"
  by (auto simp add: float_ge_def)

lemma Literal_Inr_iff: "Literal allowed l v = Inr y \<longleftrightarrow> v \<in> set allowed \<and> y = v"
  by (auto simp add: Literal_def)

lemma str_type_Inr_iff: "str_type l v = Inr y \<longleftrightarrow> y = v"
  by (auto simp add: str_type_def)

lemmas field_iffs = collect_Inr_iff model_validate_Inr_iff required_Inr_iff with_default_Inr_iff
  EmailStr_Inr_iff float_gt_Inr_iff float_ge_Inr_iff Literal_Inr_iff str_type_Inr_iff

lemma Expense_init_Inr_iff:
  "Expense_init ve g d a c p t s n = Inr e \<longleftrightarrow>
     (\<exists>g' d' a' p' pn. g = Some g' \<and> d = Some d' \<and> a = Some a' \<and> float_lt (Finite 0) a' \<and>
        p = Some p' \<and> ve p' = Some pn \<and>
        e = \<lparr>group_id = g', description = d', amount = a',
             currency = (case c of None \<Rightarrow> ''USD'' | Some x \<Rightarrow> x), paid_by = pn, date = t,
             splits = (case s of None \<Rightarrow> [] | Some x \<Rightarrow> x), notes = n\<rparr>)"
  unfolding Expense_init_def field_iffs
  by (cases c; cases s) auto

lemma Expense_init_cases:
  "(\<exists>e. Expense_init ve g d a c p t s n = Inr e) \<or>
   (\<exists>es. es \<noteq> [] \<and> Expense_init ve g d a c p t s n = Inl (ValidationError es))"
  unfolding Expense_init_def
  by (intro model_validate_cases collect_not_empty required_not_empty with_default_not_empty checks_not_empty) simp_all

lemma float_lt_not_le: "float_lt (Finite 0) x \<Longrightarrow> \<not> float_le x (Finite 0)"
  by (cases x) auto

lemma create_expense_success:
  assumes "float_lt (Finite 0) (payload_amount p)" and "ve (payload_paid_by p) = Some pn"
  shows "create_expense ve p (db :: 'dt database) =
     (Inr (length db),
      db @ [(''expense'', length db,
             ExpenseDoc \<lparr>group_id = payload_group_id p, description = payload_description p,
               amount = payload_amount p, currency = payload_currency p, paid_by = pn,
               date = None, splits = payload_splits p, notes = payload_notes p\<rparr>)])"
proof -
  have "Expense_init ve (Some (payload_group_id p)) (Some (payload_description p))
          (Some (payload_amount p)) (Some (payload_currency p)) (Some (payload_paid_by p)) None
          (Some (payload_splits p)) (payload_notes p) =
        Inr (\<lparr>group_id = payload_group_id p, description = payload_description p,
               amount = payload_amount p, currency = payload_currency p, paid_by = pn,
               date = None, splits = payload_splits p, notes = payload_notes p\<rparr> :: 'dt Expense)"
    using assms by (simp add: Expense_init_Inr_iff)
  then show ?thesis
    using assms(1) by (simp add: create_expense_def create_document_def float_lt_not_le)
qed

lemma create_expense_Inr_iff:
  "create_expense ve p (db :: 'dt database) = (Inr i, db') \<longleftrightarrow>
     float_lt (Finite 0) (payload_amount p) \<and>
     (\<exists>pn. ve (payload_paid_by p) = Some pn \<and> i = length db \<and>
        db' = db @ [(''expense'', length db,
             ExpenseDoc \<lparr>group_id = payload_group_id p, description = payload_description p,
               amount = payload_amount p, currency = payload_currency p, paid_by = pn,
               date = None, splits = payload_splits p, notes = payload_notes p\<rparr>)])"
proof
  assume ok: "create_expense ve p db = (Inr i, db')"
  then obtain e where e: "Expense_init ve (Some (payload_group_id p)) (Some (payload_description p))
          (Some (payload_amount p)) (Some (payload_currency p)) (Some (payload_paid_by p)) None
          (Some (payload_splits p)) (payload_notes p) = Inr (e :: 'dt Expense)"
    by (auto simp: create_expense_def split: if_splits sum.splits)
  then obtain pn where "float_lt (Finite 0) (payload_amount p)" "ve (payload_paid_by p) = Some pn"
    by (auto simp: Expense_init_Inr_iff)
  with ok create_expense_success [of p ve pn db] show "float_lt (Finite 0) (payload_amount p) \<and>
     (\<exists>pn. ve (payload_paid_by p) = Some pn \<and> i = length db \<and>
        db' = db @ [(''expense'', length db,
             ExpenseDoc \<lparr>group_id = payload_group_id p, description = payload_description p,
               amount = payload_amount p, currency = payload_currency p, paid_by = pn,
               date = None, splits = payload_splits p, notes = payload_notes p\<rparr>)])"
    by auto
next
  assume "float_lt (Finite 0) (payload_amount p) \<and>
     (\<exists>pn. ve (payload_paid_by p) = Some pn \<and> i = length db \<and>
        db' = db @ [(''expense'', length db,
             ExpenseDoc \<lparr>group_id = payload_group_id p, description = payload_description p,
               amount = payload_amount p, currency = payload_currency p, paid_by = pn,
               date = None, splits = payload_splits p, notes = payload_notes p\<rparr>)])"
  then show "create_expense ve p db = (Inr i, db')"
    using create_expense_success [of p ve _ db] by auto
qed

lemma create_expense_Inl:
  "create_expense ve p db = (Inl err, db') \<Longrightarrow> db' = db"
  by (auto simp: create_expense_def create_document_def split: if_splits sum.splits)

section \<open>Creating an expense\<close>

text \<open>
  C6. A request whose amount is zero or negative is rejected by the handler's guard, an
  \<open>HTTPException\<close> with status 400, before the \<open>Expense\<close> is constructed and before
  anything is written: the store is as it was. Constructing an \<open>Expense\<close> with such an
  amount fails with a \<open>ValidationError\<close>, and every \<open>Expense\<close> that is constructed
  has an amount greater than zero.
\<close>

theorem create_expense_amount_positive:
  "(float_le (payload_amount p) (Finite 0) \<longrightarrow>
      create_expense ve p (db :: 'dt database) =
        (Inl (HTTPException 400 ''Amount must be greater than 0''), db)) \<and>
   (\<forall>x. a = Some x \<and> float_le x (Finite 0) \<longrightarrow>
      (\<exists>es. es \<noteq> [] \<and>
         Expense_init ve g d a c pb (t :: 'dt option) s n = Inl (ValidationError es))) \<and>
   (\<forall>e. Expense_init ve g d a c pb (t :: 'dt option) s n = Inr e \<longrightarrow>
      float_lt (Finite 0) (amount e))"
proof (intro conjI allI impI)
  assume "float_le (payload_amount p) (Finite 0)"
  then show "create_expense ve p db =
        (Inl (HTTPException 400 ''Amount must be greater than 0''), db)"
    by (simp add: create_expense_def)
next
  fix x assume x: "a = Some x \<and> float_le x (Finite 0)"
  then have "\<not> float_lt (Finite 0) x"
    using float_lt_not_le by blast
  with x have "\<nexists>e. Expense_init ve g d a c pb t s n = Inr e"
    by (auto simp: Expense_init_Inr_iff)
  with Expense_init_cases [of ve g d a c pb t s n]
  show "\<exists>es. es \<noteq> [] \<and> Expense_init ve g d a c pb t s n = Inl (ValidationError es)"
    by blast
next
  fix e assume "Expense_init ve g d a c pb t s n = Inr e"
  then show "float_lt (Finite 0) (amount e)"
    by (auto simp: Expense_init_Inr_iff)
qed

theorem create_expense_amount_positive_witness:
  "create_expense simple_email (example_payload (Finite 0) []) ([] :: nat database) =
     (Inl (HTTPException 400 ''Amount must be greater than 0''), []) \<and>
   (\<exists>es. es \<noteq> [] \<and>
      Expense_init simple_email (Some ''g1'') (Some ''dinner'') (Some (Finite (- 5))) None
        (Some ''p@x.io'') (None :: nat option) None None = Inl (ValidationError es)) \<and>
   Expense_init simple_email (Some ''g1'') (Some ''dinner'') (Some (Finite 100)) None
        (Some ''p@x.io'') (None :: nat option) None None = Inr (example_expense (Finite 100) []) \<and>
   float_lt (Finite 0) (amount (example_expense (Finite 100) []))"
  using create_expense_amount_positive [of "example_payload (Finite 0) []" simple_email
      "[] :: nat database" "Some (Finite (- 5))" "Some ''g1''" "Some ''dinner''" None
      "Some ''p@x.io''" None None None]
  by (simp add: example_payload_def example_expense_def Expense_init_Inr_iff simple_email_def)

text \<open>
  C9. Whatever the request, the expense that is written has no date: the handler passes
  \<open>date=None\<close> to \<open>Expense(...)\<close> and never reads \<open>payload.date\<close>, so a date
  string in the payload is dropped.
\<close>
theorem create_expense_stores_no_date:
  "create_expense ve p (db :: 'dt database) = (Inr i, db') \<Longrightarrow>
     \<exists>e. db' = db @ [(''expense'', i, ExpenseDoc e)] \<and> date e = None"
  by (auto simp: create_expense_Inr_iff)

theorem create_expense_stores_no_date_witness:
  "payload_date (example_payload (Finite 100) []) = Some ''2024-05-01T12:00:00'' \<and>
   create_expense simple_email (example_payload (Finite 100) []) ([] :: nat database) =
     (Inr 0, [(''expense'', 0, ExpenseDoc (example_expense (Finite 100) []))]) \<and>
   (\<exists>e. [(''expense'', 0, ExpenseDoc (example_expense (Finite 100) []))] =
          [] @ [(''expense'', 0 :: nat, ExpenseDoc (e :: nat Expense))] \<and> date e = None)"
proof -
  have run: "create_expense simple_email (example_payload (Finite 100) []) ([] :: nat database) =
     (Inr 0, [(''expense'', 0, ExpenseDoc (example_expense (Finite 100) []))])"
    by (simp add: create_expense_Inr_iff example_payload_def example_expense_def simple_email_def)
  from create_expense_stores_no_date [OF run] run show ?thesis
    by (simp add: example_payload_def)
qed

text \<open>
  C1, as the code has it. The handler normalises nothing: an accepted expense is written
  with the split entries of the request, unchanged and in their order. So every stored
  share is at least zero (the bound of \<open>SplitItem\<close>) and the users of the stored
  splits are the users of the submitted ones; the stored shares are what was sent, and
  nothing makes them add up to the amount.
\<close>
theorem create_expense_stores_splits_unchanged:
  assumes "create_expense ve p (db :: 'dt database) = (Inr i, db')"
    and "\<forall>s \<in> set (payload_splits p). SplitItem_ok s"
  shows "\<exists>e. db' = db @ [(''expense'', i, ExpenseDoc e)] \<and>
           splits e = payload_splits p \<and>
           (\<forall>s \<in> set (splits e). float_le (Finite 0) (share s)) \<and>
           set (map user (splits e)) = set (map user (payload_splits p))"
  using assms by (auto simp: create_expense_Inr_iff SplitItem_ok_def)

theorem create_expense_stores_splits_unchanged_witness:
  "create_expense simple_email
     (example_payload (Finite 100)
        [\<lparr>user = ''a@x.io'', type = ''exact'', share = Finite 30\<rparr>,
         \<lparr>user = ''b@x.io'', type = ''equal'', share = Finite 0\<rparr>]) ([] :: nat database) =
     (Inr 0, [(''expense'', 0, ExpenseDoc (example_expense (Finite 100)
        [\<lparr>user = ''a@x.io'', type = ''exact'', share = Finite 30\<rparr>,
         \<lparr>user = ''b@x.io'', type = ''equal'', share = Finite 0\<rparr>]))]) \<and>
   SplitItem_ok \<lparr>user = ''a@x.io'', type = ''exact'', share = Finite 30\<rparr> \<and>
   SplitItem_ok \<lparr>user = ''b@x.io'', type = ''equal'', share = Finite 0\<rparr> \<and>
   (\<exists>e. [(''expense'', 0, ExpenseDoc (example_expense (Finite 100)
        [\<lparr>user = ''a@x.io'', type = ''exact'', share = Finite 30\<rparr>,
         \<lparr>user = ''b@x.io'', type = ''equal'', share = Finite 0\<rparr>]))] =
        [] @ [(''expense'', 0 :: nat, ExpenseDoc (e :: nat Expense))] \<and>
        map share (splits e) = [Finite 30, Finite 0] \<and>
        map user (splits e) = [''a@x.io'', ''b@x.io''])"
proof -
  let ?xs = "[\<lparr>user = ''a@x.io'', type = ''exact'', share = Finite 30\<rparr>,
         \<lparr>user = ''b@x.io'', type = ''equal'', share = Finite 0\<rparr>]"
  have run: "create_expense simple_email (example_payload (Finite 100) ?xs) ([] :: nat database) =
     (Inr 0, [(''expense'', 0, ExpenseDoc (example_expense (Finite 100) ?xs))])"
    by (simp add: create_expense_Inr_iff example_payload_def example_expense_def simple_email_def)
  have ok: "\<forall>s \<in> set (payload_splits (example_payload (Finite 100) ?xs)). SplitItem_ok s"
    by (simp add: example_payload_def SplitItem_ok_def)
  from create_expense_stores_splits_unchanged [OF run ok] run ok show ?thesis
    by (auto simp add: example_payload_def)
qed

theorem create_expense_sum_counterexample:
  "SplitItem_init simple_email (Some ''a@x.io'') (Some ''equal'') None =
     Inr \<lparr>user = ''a@x.io'', type = ''equal'', share = Finite 0\<rparr> \<and>
   create_expense simple_email
     (example_payload (Finite 100) [\<lparr>user = ''a@x.io'', type = ''equal'', share = Finite 0\<rparr>])
     ([] :: nat database) =
     (Inr 0, [(''expense'', 0, ExpenseDoc (example_expense (Finite 100)
        [\<lparr>user = ''a@x.io'', type = ''equal'', share = Finite 0\<rparr>]))]) \<and>
   amount (example_expense (Finite 100)
        [\<lparr>user = ''a@x.io'', type = ''equal'', share = Finite 0\<rparr>]) = Finite 100 \<and>
   map share (splits (example_expense (Finite 100)
        [\<lparr>user = ''a@x.io'', type = ''equal'', share = Finite 0\<rparr>])) = [Finite 0] \<and>
   Finite 0 \<noteq> Finite 100"
  by (simp add: create_expense_Inr_iff example_payload_def example_expense_def simple_email_def
      SplitItem_init_def field_iffs)

text \<open>
  C2, as the code has it. The handler never adds the shares up: whatever the exact and
  percentage entries hold, a request with an amount greater than zero and a payer that
  passes the address check is accepted, and the expense is written with the types and
  shares of its splits as they were sent.
\<close>
theorem create_expense_accepts_any_shares:
  assumes "float_lt (Finite 0) (payload_amount p)"
    and "ve (payload_paid_by p) = Some pn"
  shows "\<exists>e. create_expense ve p (db :: 'dt database) =
              (Inr (length db), db @ [(''expense'', length db, ExpenseDoc e)]) \<and>
            map type (splits e) = map type (payload_splits p) \<and>
            map share (splits e) = map share (payload_splits p)"
  using create_expense_success [of p ve pn db] assms by simp

theorem create_expense_accepts_any_shares_witness:
  "float_lt (Finite 0) (payload_amount (example_payload (Finite 10)
       [\<lparr>user = ''a@x.io'', type = ''exact'', share = Finite 20\<rparr>])) \<and>
   simple_email (payload_paid_by (example_payload (Finite 10)
       [\<lparr>user = ''a@x.io'', type = ''exact'', share = Finite 20\<rparr>])) = Some ''p@x.io'' \<and>
   (\<exists>e :: nat Expense. create_expense simple_email (example_payload (Finite 10)
       [\<lparr>user = ''a@x.io'', type = ''exact'', share = Finite 20\<rparr>]) [] =
          (Inr 0, [(''expense'', 0, ExpenseDoc e)]) \<and>
        map type (splits e) = [''exact''] \<and> map share (splits e) = [Finite 20])"
proof -
  let ?p = "example_payload (Finite 10) [\<lparr>user = ''a@x.io'', type = ''exact'', share = Finite 20\<rparr>]"
  have a: "float_lt (Finite 0) (payload_amount ?p)"
    by (simp add: example_payload_def)
  have b: "simple_email (payload_paid_by ?p) = Some ''p@x.io''"
    by (simp add: example_payload_def simple_email_def)
  from create_expense_accepts_any_shares [of ?p simple_email "''p@x.io''" "[] :: nat database"] a b show ?thesis
    by (simp add: example_payload_def)
qed

theorem create_expense_overflow_counterexample:
  "SplitItem_init simple_email (Some ''a@x.io'') (Some ''exact'') (Some (Finite 20)) =
     Inr \<lparr>user = ''a@x.io'', type = ''exact'', share = Finite 20\<rparr> \<and>
   float_lt (Finite 10) (Finite 20) \<and>
   create_expense simple_email
     (example_payload (Finite 10) [\<lparr>user = ''a@x.io'', type = ''exact'', share = Finite 20\<rparr>])
     ([] :: nat database) =
     (Inr 0, [(''expense'', 0, ExpenseDoc (example_expense (Finite 10)
        [\<lparr>user = ''a@x.io'', type = ''exact'', share = Finite 20\<rparr>]))]) \<and>
   SplitItem_init simple_email (Some ''a@x.io'') (Some ''percentage'') (Some (Finite 120)) =
     Inr \<lparr>user = ''a@x.io'', type = ''percentage'', share = Finite 120\<rparr> \<and>
   float_lt (Finite 100) (Finite 120) \<and>
   create_expense simple_email
     (example_payload (Finite 10) [\<lparr>user = ''a@x.io'', type = ''percentage'', share = Finite 120\<rparr>])
     ([] :: nat database) =
     (Inr 0, [(''expense'', 0, ExpenseDoc (example_expense (Finite 10)
        [\<lparr>user = ''a@x.io'', type = ''percentage'', share = Finite 120\<rparr>]))])"
  by (simp add: create_expense_Inr_iff example_payload_def example_expense_def simple_email_def
      SplitItem_init_def field_iffs)

text \<open>
  C3, as the code has it. The users of the splits are never compared: whether and how
  the handler fails is the same for any two sequences of splits, so no failure comes
  from a repeated user (nor from distinct ones), and an accepted expense is written with
  the users of its splits as they were sent, repeats included.
\<close>
theorem create_expense_ignores_split_users:
  "(fst (create_expense ve (p\<lparr>payload_splits := xs\<rparr>) (db :: 'dt database)) = Inl err \<longleftrightarrow>
    fst (create_expense ve (p\<lparr>payload_splits := ys\<rparr>) db) = Inl err) \<and>
   (\<forall>i db'. create_expense ve p db = (Inr i, db') \<longrightarrow>
      (\<exists>e. db' = db @ [(''expense'', i, ExpenseDoc e)] \<and>
           map user (splits e) = map user (payload_splits p)))"
proof (intro conjI allI impI)
  have init: "Expense_init ve g d a c pb (t :: 'dt option) (Some xs) n = Inl err \<longleftrightarrow>
        Expense_init ve g d a c pb t (Some ys) n = Inl err" for g d a c pb t n
    by (simp add: Expense_init_def with_default_def collect_def model_validate_def
        split: sum.splits)
  have run: "fst (create_expense ve q db) = Inl err \<longleftrightarrow>
      (if float_le (payload_amount q) (Finite 0)
       then err = HTTPException 400 ''Amount must be greater than 0''
       else Expense_init ve (Some (payload_group_id q)) (Some (payload_description q))
              (Some (payload_amount q)) (Some (payload_currency q)) (Some (payload_paid_by q))
              (None :: 'dt option) (Some (payload_splits q)) (payload_notes q) = Inl err)" for q
    by (auto simp add: create_expense_def create_document_def split: sum.splits)
  show "fst (create_expense ve (p\<lparr>payload_splits := xs\<rparr>) db) = Inl err \<longleftrightarrow>
    fst (create_expense ve (p\<lparr>payload_splits := ys\<rparr>) db) = Inl err"
    unfolding run using init by simp
next
  fix i db' assume "create_expense ve p db = (Inr i, db')"
  then show "\<exists>e. db' = db @ [(''expense'', i, ExpenseDoc e)] \<and>
           map user (splits e) = map user (payload_splits p)"
    by (auto simp: create_expense_Inr_iff)
qed

theorem create_expense_ignores_split_users_witness:
  "fst (create_expense simple_email
          (example_payload (Finite 0) []
             \<lparr>payload_splits := [\<lparr>user = ''a@x.io'', type = ''equal'', share = Finite 0\<rparr>,
                                 \<lparr>user = ''a@x.io'', type = ''exact'', share = Finite 10\<rparr>]\<rparr>)
          ([] :: nat database)) = Inl (HTTPException 400 ''Amount must be greater than 0'') \<and>
   fst (create_expense simple_email
          (example_payload (Finite 0) []
             \<lparr>payload_splits := [\<lparr>user = ''a@x.io'', type = ''equal'', share = Finite 0\<rparr>,
                                 \<lparr>user = ''b@x.io'', type = ''exact'', share = Finite 10\<rparr>]\<rparr>)
          ([] :: nat database)) = Inl (HTTPException 400 ''Amount must be greater than 0'') \<and>
   create_expense simple_email
     (example_payload (Finite 100)
        [\<lparr>user = ''a@x.io'', type = ''equal'', share = Finite 0\<rparr>,
         \<lparr>user = ''a@x.io'', type = ''exact'', share = Finite 10\<rparr>]) ([] :: nat database) =
     (Inr 0, [(''expense'', 0, ExpenseDoc (example_expense (Finite 100)
        [\<lparr>user = ''a@x.io'', type = ''equal'', share = Finite 0\<rparr>,
         \<lparr>user = ''a@x.io'', type = ''exact'', share = Finite 10\<rparr>]))]) \<and>
   (\<exists>e. [(''expense'', 0, ExpenseDoc (example_expense (Finite 100)
        [\<lparr>user = ''a@x.io'', type = ''equal'', share = Finite 0\<rparr>,
         \<lparr>user = ''a@x.io'', type = ''exact'', share = Finite 10\<rparr>]))] =
        [] @ [(''expense'', 0 :: nat, ExpenseDoc (e :: nat Expense))] \<and>
        map user (splits e) = [''a@x.io'', ''a@x.io''])"
proof -
  let ?dup = "[\<lparr>user = ''a@x.io'', type = ''equal'', share = Finite 0\<rparr>,
         \<lparr>user = ''a@x.io'', type = ''exact'', share = Finite 10\<rparr>]"
  let ?dis = "[\<lparr>user = ''a@x.io'', type = ''equal'', share = Finite 0\<rparr>,
         \<lparr>user = ''b@x.io'', type = ''exact'', share = Finite 10\<rparr>]"
  have fail: "fst (create_expense simple_email (example_payload (Finite 0) []\<lparr>payload_splits := ?dup\<rparr>)
          ([] :: nat database)) = Inl (HTTPException 400 ''Amount must be greater than 0'')"
    by (simp add: create_expense_def example_payload_def)
  have run: "create_expense simple_email (example_payload (Finite 100) ?dup) ([] :: nat database) =
     (Inr 0, [(''expense'', 0, ExpenseDoc (example_expense (Finite 100) ?dup))])"
    by (simp add: create_expense_Inr_iff example_payload_def example_expense_def simple_email_def)
  note thm1 = create_expense_ignores_split_users
    [where ve = simple_email and p = "example_payload (Finite 0) []" and xs = ?dup
       and db = "[] :: nat database"
       and err = "HTTPException 400 ''Amount must be greater than 0''" and ys = ?dis]
  note thm2 = create_expense_ignores_split_users
    [where ve = simple_email and p = "example_payload (Finite 100) ?dup" and xs = ?dup
       and db = "[] :: nat database"
       and err = "HTTPException 400 ''Amount must be greater than 0''" and ys = ?dis]
  from thm1 fail have other: "fst (create_expense simple_email
      (example_payload (Finite 0) []\<lparr>payload_splits := ?dis\<rparr>) ([] :: nat database)) =
      Inl (HTTPException 400 ''Amount must be greater than 0'')"
    by blast
  from thm2 run have "\<exists>e. [(''expense'', 0, ExpenseDoc (example_expense (Finite 100) ?dup))] =
        [] @ [(''expense'', 0 :: nat, ExpenseDoc (e :: nat Expense))] \<and>
        map user (splits e) = map user (payload_splits (example_payload (Finite 100) ?dup))"
    by blast
  then have "\<exists>e. [(''expense'', 0, ExpenseDoc (example_expense (Finite 100) ?dup))] =
        [] @ [(''expense'', 0 :: nat, ExpenseDoc (e :: nat Expense))] \<and>
        map user (splits e) = [''a@x.io'', ''a@x.io'']"
    by (simp add: example_payload_def)
  with fail other run show ?thesis by blast
qed

theorem create_expense_duplicate_user_counterexample:
  "SplitItem_init simple_email (Some ''a@x.io'') (Some ''equal'') None =
     Inr \<lparr>user = ''a@x.io'', type = ''equal'', share = Finite 0\<rparr> \<and>
   SplitItem_init simple_email (Some ''a@x.io'') (Some ''exact'') (Some (Finite 10)) =
     Inr \<lparr>user = ''a@x.io'', type = ''exact'', share = Finite 10\<rparr> \<and>
   create_expense simple_email
     (example_payload (Finite 100)
        [\<lparr>user = ''a@x.io'', type = ''equal'', share = Finite 0\<rparr>,
         \<lparr>user = ''a@x.io'', type = ''exact'', share = Finite 10\<rparr>]) ([] :: nat database) =
     (Inr 0, [(''expense'', 0, ExpenseDoc (example_expense (Finite 100)
        [\<lparr>user = ''a@x.io'', type = ''equal'', share = Finite 0\<rparr>,
         \<lparr>user = ''a@x.io'', type = ''exact'', share = Finite 10\<rparr>]))])"
  by (simp add: create_expense_Inr_iff example_payload_def example_expense_def simple_email_def
      SplitItem_init_def field_iffs)

text \<open>
  C4, as the code has it. With an amount greater than zero and a payer that passes the
  address check, a request whose splits have no entry of type equal is accepted and
  written with its splits unchanged, whatever its shares leave of the amount; and a
  request with no splits at all is accepted and written with no splits.
\<close>
theorem create_expense_without_equal_entries:
  assumes "float_lt (Finite 0) (payload_amount p)"
    and "ve (payload_paid_by p) = Some pn"
  shows "(filter (\<lambda>s. type s = ''equal'') (payload_splits p) = [] \<longrightarrow>
           (\<exists>e. create_expense ve p (db :: 'dt database) =
                  (Inr (length db), db @ [(''expense'', length db, ExpenseDoc e)]) \<and>
                splits e = payload_splits p)) \<and>
         (payload_splits p = [] \<longrightarrow>
           (\<exists>e. create_expense ve p db =
                  (Inr (length db), db @ [(''expense'', length db, ExpenseDoc e)]) \<and>
                splits e = []))"
  using create_expense_success [of p ve pn db] assms by simp

theorem create_expense_without_equal_entries_witness:
  "float_lt (Finite 0) (payload_amount (example_payload (Finite 10)
       [\<lparr>user = ''a@x.io'', type = ''exact'', share = Finite 7\<rparr>])) \<and>
   simple_email (payload_paid_by (example_payload (Finite 10)
       [\<lparr>user = ''a@x.io'', type = ''exact'', share = Finite 7\<rparr>])) = Some ''p@x.io'' \<and>
   filter (\<lambda>s. type s = ''equal'') (payload_splits (example_payload (Finite 10)
       [\<lparr>user = ''a@x.io'', type = ''exact'', share = Finite 7\<rparr>])) = [] \<and>
   (\<exists>e :: nat Expense. create_expense simple_email (example_payload (Finite 10)
       [\<lparr>user = ''a@x.io'', type = ''exact'', share = Finite 7\<rparr>]) [] =
          (Inr 0, [(''expense'', 0, ExpenseDoc e)]) \<and>
        splits e = [\<lparr>user = ''a@x.io'', type = ''exact'', share = Finite 7\<rparr>]) \<and>
   (\<exists>e :: nat Expense. create_expense simple_email (example_payload (Finite 10) []) [] =
          (Inr 0, [(''expense'', 0, ExpenseDoc e)]) \<and> splits e = [])"
proof -
  let ?p = "example_payload (Finite 10) [\<lparr>user = ''a@x.io'', type = ''exact'', share = Finite 7\<rparr>]"
  let ?q = "example_payload (Finite 10) []"
  have a: "float_lt (Finite 0) (payload_amount ?p)" "float_lt (Finite 0) (payload_amount ?q)"
    by (simp_all add: example_payload_def)
  have b: "simple_email (payload_paid_by ?p) = Some ''p@x.io''"
    "simple_email (payload_paid_by ?q) = Some ''p@x.io''"
    by (simp_all add: example_payload_def simple_email_def)
  have c: "filter (\<lambda>s. type s = ''equal'') (payload_splits ?p) = []" "payload_splits ?q = []"
    by (simp_all add: example_payload_def)
  from create_expense_without_equal_entries [of ?p simple_email "''p@x.io''" "[] :: nat database"]
    create_expense_without_equal_entries [of ?q simple_email "''p@x.io''" "[] :: nat database"]
    a b c
  show ?thesis
    by (simp add: example_payload_def)
qed

theorem create_expense_shortfall_counterexample:
  "SplitItem_init simple_email (Some ''a@x.io'') (Some ''exact'') (Some (Finite 7)) =
     Inr \<lparr>user = ''a@x.io'', type = ''exact'', share = Finite 7\<rparr> \<and>
   filter (\<lambda>s. type s = ''equal'') [\<lparr>user = ''a@x.io'', type = ''exact'', share = Finite 7\<rparr>] = [] \<and>
   filter (\<lambda>s. type s = ''percentage'') [\<lparr>user = ''a@x.io'', type = ''exact'', share = Finite 7\<rparr>] = [] \<and>
   map share [\<lparr>user = ''a@x.io'', type = ''exact'', share = Finite 7\<rparr>] = [Finite 7] \<and>
   float_lt (Finite 7) (Finite 10) \<and>
   create_expense simple_email
     (example_payload (Finite 10) [\<lparr>user = ''a@x.io'', type = ''exact'', share = Finite 7\<rparr>])
     ([] :: nat database) =
     (Inr 0, [(''expense'', 0, ExpenseDoc (example_expense (Finite 10)
        [\<lparr>user = ''a@x.io'', type = ''exact'', share = Finite 7\<rparr>]))])"
  by (simp add: create_expense_Inr_iff example_payload_def example_expense_def simple_email_def
      SplitItem_init_def field_iffs)

section \<open>Creating a group\<close>

lemma fold_update_keys:
  "map fst (fold (\<lambda>k d. AList.update k () d) ks d) =
     fold (\<lambda>k ys. if k \<in> set ys then ys else ys @ [k]) ks (map fst d)"
  by (induction ks arbitrary: d) (simp_all add: update_keys)

lemma fold_keys_first_occurrences:
  "fold (\<lambda>k ys. if k \<in> set ys then ys else ys @ [k]) ks ys =
     ys @ first_occurrences (filter (\<lambda>k. k \<notin> set ys) ks)"
proof (induction ks arbitrary: ys)
  case Nil
  show ?case by simp
next
  case (Cons k ks)
  have "filter (\<lambda>y. y \<noteq> k) (filter (\<lambda>x. x \<notin> set ys) ks) =
        filter (\<lambda>x. x \<notin> set (ys @ [k])) ks"
    by (simp add: conj_commute)
  with Cons show ?case by simp
qed

lemma dict_fromkeys_keys: "map fst (dict_fromkeys ks) = first_occurrences ks"
  by (simp add: dict_fromkeys_def fold_update_keys fold_keys_first_occurrences)

lemma set_first_occurrences: "set (first_occurrences xs) = set xs"
  by (induction xs rule: first_occurrences.induct) auto

lemma distinct_first_occurrences: "distinct (first_occurrences xs)"
  by (induction xs rule: first_occurrences.induct) (auto simp: set_first_occurrences)

lemma subseq_first_occurrences: "subseq (first_occurrences xs) xs"
proof (induction xs rule: first_occurrences.induct)
  case 1
  show ?case by simp
next
  case (2 x xs)
  have "subseq (filter (\<lambda>y. y \<noteq> x) xs) xs" by simp
  with 2 have "subseq (first_occurrences (filter (\<lambda>y. y \<noteq> x) xs)) xs"
    using subseq_order.trans by blast
  then show ?case by simp
qed

lemma count_list_distinct: "distinct xs \<Longrightarrow> x \<in> set xs \<Longrightarrow> count_list xs x = 1"
  by (induction xs) (auto simp: count_list_0_iff)

text \<open>
  C5. The members of a new group are the member emails of the request followed by the
  creator's, with every email kept where it first occurs and its later occurrences
  removed. So the creator is among them exactly once, no email is there twice, the
  emails are those of the request and the creator, and they stand in the order in which
  the request has them.
\<close>
theorem create_group_members_first_occurrences:
  "create_group_members created_by_email member_emails =
     first_occurrences (member_emails @ [created_by_email]) \<and>
   count_list (create_group_members created_by_email member_emails) created_by_email = 1 \<and>
   distinct (create_group_members created_by_email member_emails) \<and>
   set (create_group_members created_by_email member_emails) =
     set member_emails \<union> {created_by_email} \<and>
   subseq (create_group_members created_by_email member_emails)
     (member_emails @ [created_by_email])"
proof -
  have eq: "create_group_members created_by_email member_emails =
     first_occurrences (member_emails @ [created_by_email])"
    by (simp add: create_group_members_def dict_fromkeys_keys)
  show ?thesis
    unfolding eq
    by (simp add: set_first_occurrences distinct_first_occurrences subseq_first_occurrences
        count_list_distinct)
qed

theorem create_group_members_first_occurrences_witness:
  "create_group_members ''c@x.io'' [''b@x.io'', ''c@x.io'', ''a@x.io'', ''b@x.io''] =
     [''b@x.io'', ''c@x.io'', ''a@x.io''] \<and>
   create_group_members ''c@x.io'' [] = [''c@x.io''] \<and>
   first_occurrences ([''b@x.io'', ''c@x.io'', ''a@x.io'', ''b@x.io''] @ [''c@x.io'']) =
     [''b@x.io'', ''c@x.io'', ''a@x.io'']"
  using create_group_members_first_occurrences
    [of "''c@x.io''" "[''b@x.io'', ''c@x.io'', ''a@x.io'', ''b@x.io'']"]
    create_group_members_first_occurrences [of "''c@x.io''" "[]"]
  by simp

section \<open>Constructing the models\<close>

lemma validate_items_EmailStr_Inr_iff:
  "validate_items (EmailStr ve) f i vs = Inr ys \<longleftrightarrow> map ve vs = map Some ys"
proof (induction vs arbitrary: i ys)
  case Nil
  show ?case by auto
next
  case (Cons v vs)
  show ?case
    by (cases ys) (auto simp: collect_Inr_iff EmailStr_Inr_iff Cons)
qed

lemma validate_items_not_empty:
  "(\<And>l v. check l v \<noteq> Inl []) \<Longrightarrow> validate_items check f i vs \<noteq> Inl []"
  by (induction vs arbitrary: i) (simp_all add: collect_not_empty)

lemma List_of_EmailStr_not_empty: "List_of (EmailStr ve) f l vs \<noteq> Inl []"
  unfolding List_of_def by (rule validate_items_not_empty) (rule checks_not_empty)

lemma SplitItem_init_Inr_iff:
  "SplitItem_init ve u t s = Inr x \<longleftrightarrow>
     (\<exists>u' n. u = Some u' \<and> ve u' = Some n \<and>
        (\<forall>t'. t = Some t' \<longrightarrow> t' \<in> set [''equal'', ''exact'', ''percentage'']) \<and>
        (\<forall>s'. s = Some s' \<longrightarrow> float_le (Finite 0) s') \<and>
        x = \<lparr>user = n, type = (case t of None \<Rightarrow> ''equal'' | Some t' \<Rightarrow> t'),
             share = (case s of None \<Rightarrow> Finite 0 | Some s' \<Rightarrow> s')\<rparr>)"
  unfolding SplitItem_init_def field_iffs
  by (cases t; cases s) auto

lemma SplitItem_init_cases:
  "(\<exists>x. SplitItem_init ve u t s = Inr x) \<or>
   (\<exists>es. es \<noteq> [] \<and> SplitItem_init ve u t s = Inl (ValidationError es))"
  unfolding SplitItem_init_def
  by (intro model_validate_cases collect_not_empty required_not_empty with_default_not_empty
      checks_not_empty) simp_all

lemma SplitItem_init_ok: "SplitItem_init ve u t s = Inr x \<Longrightarrow> SplitItem_ok x"
  by (cases t; cases s) (auto simp: SplitItem_init_Inr_iff SplitItem_ok_def)

lemma Group_init_Inr_iff:
  "Group_init ve n c m d i = Inr g \<longleftrightarrow>
     (\<exists>n' c' cn m' mn. n = Some n' \<and> c = Some c' \<and> ve c' = Some cn \<and>
        m = Some m' \<and> map ve m' = map Some mn \<and>
        g = \<lparr>name = n', created_by = cn, members = mn,
             default_currency = (case d of None \<Rightarrow> ''USD'' | Some x \<Rightarrow> x), image_url = i\<rparr>)"
  unfolding Group_init_def field_iffs List_of_def validate_items_EmailStr_Inr_iff
  by (cases d) auto

lemma Group_init_cases:
  "(\<exists>g. Group_init ve n c m d i = Inr g) \<or>
   (\<exists>es. es \<noteq> [] \<and> Group_init ve n c m d i = Inl (ValidationError es))"
  unfolding Group_init_def
  by (intro model_validate_cases collect_not_empty required_not_empty with_default_not_empty
      checks_not_empty List_of_EmailStr_not_empty) simp_all

text \<open>
  C7, as the code has it. Each model checks its fields when it is constructed, with no
  reference to the store: a required field must be present (an empty text is accepted,
  no model declares a minimum length), the amount is greater than zero, a share is at
  least zero, an address field passes the e-mail check, and the type of a split is one
  of equal, exact and percentage. A construction that meets all of these returns the
  whole entity; any other returns a \<open>ValidationError\<close> with at least one line, and no
  entity.
\<close>
theorem field_constraints_enforced:
  "(\<forall>x. SplitItem_init ve u t s = Inr x \<longleftrightarrow>
      (\<exists>u' n. u = Some u' \<and> ve u' = Some n \<and>
         (\<forall>t'. t = Some t' \<longrightarrow> t' \<in> set [''equal'', ''exact'', ''percentage'']) \<and>
         (\<forall>s'. s = Some s' \<longrightarrow> float_le (Finite 0) s') \<and>
         x = \<lparr>user = n, type = (case t of None \<Rightarrow> ''equal'' | Some t' \<Rightarrow> t'),
              share = (case s of None \<Rightarrow> Finite 0 | Some s' \<Rightarrow> s')\<rparr>)) \<and>
   ((\<exists>x. SplitItem_init ve u t s = Inr x) \<or>
    (\<exists>es. es \<noteq> [] \<and> SplitItem_init ve u t s = Inl (ValidationError es))) \<and>
   (\<forall>e. Expense_init ve eg ed ea ec ep (et :: 'dt option) es en = Inr e \<longleftrightarrow>
      (\<exists>g' d' a' p' pn. eg = Some g' \<and> ed = Some d' \<and> ea = Some a' \<and>
         float_lt (Finite 0) a' \<and> ep = Some p' \<and> ve p' = Some pn \<and>
         e = \<lparr>group_id = g', description = d', amount = a',
              currency = (case ec of None \<Rightarrow> ''USD'' | Some c' \<Rightarrow> c'), paid_by = pn,
              date = et, splits = (case es of None \<Rightarrow> [] | Some xs \<Rightarrow> xs), notes = en\<rparr>)) \<and>
   ((\<exists>e. Expense_init ve eg ed ea ec ep et es en = Inr e) \<or>
    (\<exists>ls. ls \<noteq> [] \<and> Expense_init ve eg ed ea ec ep et es en = Inl (ValidationError ls))) \<and>
   (\<forall>g. Group_init ve gn gc gm gd gi = Inr g \<longleftrightarrow>
      (\<exists>n' c' cn m' mn. gn = Some n' \<and> gc = Some c' \<and> ve c' = Some cn \<and>
         gm = Some m' \<and> map ve m' = map Some mn \<and>
         g = \<lparr>name = n', created_by = cn, members = mn,
              default_currency = (case gd of None \<Rightarrow> ''USD'' | Some c' \<Rightarrow> c'),
              image_url = gi\<rparr>)) \<and>
   ((\<exists>g. Group_init ve gn gc gm gd gi = Inr g) \<or>
    (\<exists>ls. ls \<noteq> [] \<and> Group_init ve gn gc gm gd gi = Inl (ValidationError ls)))"
proof (intro conjI allI)
  show "SplitItem_init ve u t s = Inr x \<longleftrightarrow>
      (\<exists>u' n. u = Some u' \<and> ve u' = Some n \<and>
         (\<forall>t'. t = Some t' \<longrightarrow> t' \<in> set [''equal'', ''exact'', ''percentage'']) \<and>
         (\<forall>s'. s = Some s' \<longrightarrow> float_le (Finite 0) s') \<and>
         x = \<lparr>user = n, type = (case t of None \<Rightarrow> ''equal'' | Some t' \<Rightarrow> t'),
              share = (case s of None \<Rightarrow> Finite 0 | Some s' \<Rightarrow> s')\<rparr>)" for x
    by (rule SplitItem_init_Inr_iff)
  show "(\<exists>x. SplitItem_init ve u t s = Inr x) \<or>
    (\<exists>es. es \<noteq> [] \<and> SplitItem_init ve u t s = Inl (ValidationError es))"
    by (rule SplitItem_init_cases)
  show "Expense_init ve eg ed ea ec ep et es en = Inr e \<longleftrightarrow>
      (\<exists>g' d' a' p' pn. eg = Some g' \<and> ed = Some d' \<and> ea = Some a' \<and>
         float_lt (Finite 0) a' \<and> ep = Some p' \<and> ve p' = Some pn \<and>
         e = \<lparr>group_id = g', description = d', amount = a',
              currency = (case ec of None \<Rightarrow> ''USD'' | Some c' \<Rightarrow> c'), paid_by = pn,
              date = et, splits = (case es of None \<Rightarrow> [] | Some xs \<Rightarrow> xs), notes = en\<rparr>)" for e
    by (rule Expense_init_Inr_iff)
  show "(\<exists>e. Expense_init ve eg ed ea ec ep et es en = Inr e) \<or>
    (\<exists>ls. ls \<noteq> [] \<and> Expense_init ve eg ed ea ec ep et es en = Inl (ValidationError ls))"
    by (rule Expense_init_cases)
  show "Group_init ve gn gc gm gd gi = Inr g \<longleftrightarrow>
      (\<exists>n' c' cn m' mn. gn = Some n' \<and> gc = Some c' \<and> ve c' = Some cn \<and>
         gm = Some m' \<and> map ve m' = map Some mn \<and>
         g = \<lparr>name = n', created_by = cn, members = mn,
              default_currency = (case gd of None \<Rightarrow> ''USD'' | Some c' \<Rightarrow> c'),
              image_url = gi\<rparr>)" for g
    by (rule Group_init_Inr_iff)
  show "(\<exists>g. Group_init ve gn gc gm gd gi = Inr g) \<or>
    (\<exists>ls. ls \<noteq> [] \<and> Group_init ve gn gc gm gd gi = Inl (ValidationError ls))"
    by (rule Group_init_cases)
qed

theorem field_constraints_enforced_witness:
  "SplitItem_init simple_email (Some ''a@x.io'') (Some ''exact'') (Some (Finite 30)) =
     Inr \<lparr>user = ''a@x.io'', type = ''exact'', share = Finite 30\<rparr> \<and>
   (\<exists>ls. ls \<noteq> [] \<and>
      SplitItem_init simple_email (Some ''a@x.io'') (Some ''half'') None =
        Inl (ValidationError ls)) \<and>
   (\<exists>ls. ls \<noteq> [] \<and>
      Expense_init simple_email (Some ''g1'') (Some ''dinner'') (Some (Finite 0)) None
        (Some ''p@x.io'') (None :: nat option) None None = Inl (ValidationError ls)) \<and>
   (\<exists>ls. ls \<noteq> [] \<and>
      Group_init simple_email (Some ''trip'') (Some ''nobody'') (Some []) None None =
        Inl (ValidationError ls))"
proof -
  note split_ok = field_constraints_enforced
    [where ve = simple_email and u = "Some ''a@x.io''" and t = "Some ''exact''"
       and s = "Some (Finite 30)", THEN conjunct1]
  note split_bad = field_constraints_enforced
    [where ve = simple_email and u = "Some ''a@x.io''" and t = "Some ''half''" and s = None]
  note expense_bad = field_constraints_enforced
    [where ve = simple_email and eg = "Some ''g1''" and ed = "Some ''dinner''"
       and ea = "Some (Finite 0)" and ec = None and ep = "Some ''p@x.io''"
       and et = "None :: nat option" and es = None and en = None,
     THEN conjunct2, THEN conjunct2]
  note group_bad = field_constraints_enforced
    [where ve = simple_email and gn = "Some ''trip''" and gc = "Some ''nobody''"
       and gm = "Some []" and gd = None and gi = None,
     THEN conjunct2, THEN conjunct2, THEN conjunct2, THEN conjunct2]
  have a: "SplitItem_init simple_email (Some ''a@x.io'') (Some ''exact'') (Some (Finite 30)) =
     Inr \<lparr>user = ''a@x.io'', type = ''exact'', share = Finite 30\<rparr>"
    using split_ok by (simp add: simple_email_def)
  have "\<nexists>x. SplitItem_init simple_email (Some ''a@x.io'') (Some ''half'') None = Inr x"
    using split_bad [THEN conjunct1] by simp
  with split_bad [THEN conjunct2, THEN conjunct1] have b: "\<exists>ls. ls \<noteq> [] \<and>
      SplitItem_init simple_email (Some ''a@x.io'') (Some ''half'') None =
        Inl (ValidationError ls)"
    by blast
  have "\<nexists>e. Expense_init simple_email (Some ''g1'') (Some ''dinner'') (Some (Finite 0)) None
        (Some ''p@x.io'') (None :: nat option) None None = Inr e"
    using expense_bad [THEN conjunct1] by simp
  with expense_bad [THEN conjunct2, THEN conjunct1] have c: "\<exists>ls. ls \<noteq> [] \<and>
      Expense_init simple_email (Some ''g1'') (Some ''dinner'') (Some (Finite 0)) None
        (Some ''p@x.io'') (None :: nat option) None None = Inl (ValidationError ls)"
    by blast
  have "\<nexists>g. Group_init simple_email (Some ''trip'') (Some ''nobody'') (Some []) None None = Inr g"
    using group_bad [THEN conjunct1] by (simp add: simple_email_def)
  with group_bad [THEN conjunct2] have d: "\<exists>ls. ls \<noteq> [] \<and>
      Group_init simple_email (Some ''trip'') (Some ''nobody'') (Some []) None None =
        Inl (ValidationError ls)"
    by blast
  from a b c d show ?thesis by blast
qed

theorem empty_text_counterexample:
  "Group_init simple_email (Some []) (Some ''c@x.io'') (Some [''c@x.io'']) None None =
     Inr \<lparr>name = [], created_by = ''c@x.io'', members = [''c@x.io''],
          default_currency = ''USD'', image_url = None\<rparr> \<and>
   Expense_init simple_email (Some ''g1'') (Some []) (Some (Finite 100)) None
        (Some ''p@x.io'') (None :: nat option) None None =
     Inr \<lparr>group_id = ''g1'', description = [], amount = Finite 100, currency = ''USD'',
          paid_by = ''p@x.io'', date = None, splits = [], notes = None\<rparr>"
  by (simp add: Group_init_Inr_iff Expense_init_Inr_iff simple_email_def)

section \<open>Serializing a document\<close>

lemma isoformat_item_append:
  "isoformat_item isof (length h) kv (h @ [al]) =
     h @ [case kv of (k, v) \<Rightarrow>
            (case v of VDatetime t \<Rightarrow> AList.update k (VStr (isof t)) al | _ \<Rightarrow> al)]"
  by (cases kv) (simp add: isoformat_item_def dict_setitem_def split: pyval.splits)

lemma fold_isoformat_item_append:
  "fold (isoformat_item isof (length h)) items (h @ [al]) =
     h @ [fold (\<lambda>kv al. case kv of (k, v) \<Rightarrow>
            (case v of VDatetime t \<Rightarrow> AList.update k (VStr (isof t)) al | _ \<Rightarrow> al)) items al]"
  by (induction items arbitrary: al) (simp_all add: isoformat_item_append)

lemma map_of_fold_isoformat:
  assumes "distinct (map fst items)"
  shows "map_of (fold (\<lambda>kv al. case kv of (k, v) \<Rightarrow>
            (case v of VDatetime t \<Rightarrow> AList.update k (VStr (isof t)) al | _ \<Rightarrow> al)) items al) k =
         (case map_of items k of
            Some (VDatetime t) \<Rightarrow> Some (VStr (isof t))
          | _ \<Rightarrow> map_of al k)"
  using assms
proof (induction items arbitrary: al)
  case Nil
  show ?case by simp
next
  case (Cons kv items)
  obtain k0 v0 where kv: "kv = (k0, v0)" by (cases kv)
  from Cons.prems kv have d: "distinct (map fst items)" and n: "map_of items k0 = None"
    by (auto simp: map_of_eq_None_iff)
  show ?case
    using n by (cases v0) (auto simp: kv Cons.IH [OF d] update_conv' split: option.splits pyval.splits)
qed

lemma distinct_fold_isoformat:
  "distinct (map fst al) \<Longrightarrow>
   distinct (map fst (fold (\<lambda>kv al. case kv of (k, v) \<Rightarrow>
            (case v of VDatetime t \<Rightarrow> AList.update k (VStr (isof t)) al | _ \<Rightarrow> al)) items al))"
  by (induction items arbitrary: al) (auto simp: distinct_update split: pyval.splits)

lemma map_of_fold_isoformat_self:
  assumes "distinct (map fst al)"
  shows "map_of (fold (\<lambda>kv al. case kv of (k, v) \<Rightarrow>
            (case v of VDatetime t \<Rightarrow> AList.update k (VStr (isof t)) al | _ \<Rightarrow> al)) al al) k =
         map_option (textual_datetime isof) (map_of al k)"
  by (simp add: map_of_fold_isoformat [OF assms] textual_datetime_def
      split: option.splits pyval.splits)

lemma delete_absent: "map_of al k = None \<Longrightarrow> AList.delete k al = al"
  by (induction al) (auto simp: AList.delete_eq split: if_splits)

lemma serialize_doc_Some:
  assumes "h ! a \<noteq> []"
  shows "serialize_doc py_str isof (Some a) h =
     (Some (length h),
      h @ [let oid = (case map_of (h ! a) ''_id'' of None \<Rightarrow> VNone | Some v \<Rightarrow> v);
               base = AList.delete ''_id'' (h ! a);
               al = (if oid \<noteq> VNone then AList.update ''id'' (VStr (py_str oid)) base else base)
           in fold (\<lambda>kv al. case kv of (k, v) \<Rightarrow>
                (case v of VDatetime t \<Rightarrow> AList.update k (VStr (isof t)) al | _ \<Rightarrow> al)) al al])"
  using assms
  by (auto simp: serialize_doc_def dict_copy_def dict_pop_def dict_setitem_def dict_items_def
      Let_def fold_isoformat_item_append delete_absent split: option.splits)

text \<open>
  C8. Serialization of \<open>None\<close> is \<open>None\<close>, and an empty document is returned as it
  is. For any other document the result is a new dict in which the key \<open>_id\<close> is gone;
  when the document has an identifier under \<open>_id\<close> (a value other than \<open>None\<close>), the
  key \<open>id\<close> holds its \<open>str\<close>; every other field keeps its key, with a datetime value
  replaced by its \<open>isoformat()\<close> text and any other value unchanged. (Without an
  identifier, a field \<open>id\<close> of the document is treated like the other fields.)
\<close>
theorem serialize_doc_fields:
  "serialize_doc py_str isof None h = (None, h) \<and>
   (h ! a = [] \<longrightarrow> serialize_doc py_str isof (Some a) h = (Some a, h)) \<and>
   (a < length h \<and> h ! a \<noteq> [] \<and> distinct (map fst (h ! a)) \<longrightarrow>
      (\<exists>h'. serialize_doc py_str isof (Some a) h = (Some (length h), h') \<and>
         length h < length h' \<and>
         distinct (map fst (h' ! length h)) \<and>
         map_of (h' ! length h) ''_id'' = None \<and>
         (\<forall>v. map_of (h ! a) ''_id'' = Some v \<and> v \<noteq> VNone \<longrightarrow>
            map_of (h' ! length h) ''id'' = Some (VStr (py_str v))) \<and>
         (\<forall>k. k \<noteq> ''_id'' \<and> k \<noteq> ''id'' \<longrightarrow>
            map_of (h' ! length h) k = map_option (textual_datetime isof) (map_of (h ! a) k)) \<and>
         (map_of (h ! a) ''_id'' = None \<or> map_of (h ! a) ''_id'' = Some VNone \<longrightarrow>
            map_of (h' ! length h) ''id'' =
              map_option (textual_datetime isof) (map_of (h ! a) ''id''))))"
proof (intro conjI impI)
  show "serialize_doc py_str isof None h = (None, h)"
    by (simp add: serialize_doc_def)
  show "serialize_doc py_str isof (Some a) h = (Some a, h)" if "h ! a = []"
    using that by (simp add: serialize_doc_def)
next
  assume asm: "a < length h \<and> h ! a \<noteq> [] \<and> distinct (map fst (h ! a))"
  define oid where "oid = (case map_of (h ! a) ''_id'' of None \<Rightarrow> VNone | Some v \<Rightarrow> v)"
  define base where "base = AList.delete ''_id'' (h ! a)"
  define al where
    "al = (if oid \<noteq> VNone then AList.update ''id'' (VStr (py_str oid)) base else base)"
  define res where "res = fold (\<lambda>kv al. case kv of (k, v) \<Rightarrow>
      (case v of VDatetime t \<Rightarrow> AList.update k (VStr (isof t)) al | _ \<Rightarrow> al)) al al"
  have run: "serialize_doc py_str isof (Some a) h = (Some (length h), h @ [res])"
    using asm by (simp add: serialize_doc_Some res_def al_def base_def oid_def Let_def)
  have dbase: "distinct (map fst base)"
    using asm by (simp add: base_def distinct_delete)
  then have dal: "distinct (map fst al)"
    by (simp add: al_def distinct_update)
  have look: "map_of res k = map_option (textual_datetime isof) (map_of al k)" for k
    unfolding res_def by (rule map_of_fold_isoformat_self [OF dal])
  have mal: "map_of al = (if oid \<noteq> VNone then ((map_of (h ! a))(''_id'' := None))(''id'' \<mapsto> VStr (py_str oid))
                         else (map_of (h ! a))(''_id'' := None))"
    by (simp add: al_def base_def update_conv' delete_conv')
  have 1: "distinct (map fst res)"
    unfolding res_def by (rule distinct_fold_isoformat [OF dal])
  have 2: "map_of res ''_id'' = None"
    by (simp add: look mal)
  have 3: "map_of res ''id'' = Some (VStr (py_str v))"
    if "map_of (h ! a) ''_id'' = Some v \<and> v \<noteq> VNone" for v
    using that by (simp add: look mal oid_def textual_datetime_def)
  have 4: "map_of res k = map_option (textual_datetime isof) (map_of (h ! a) k)"
    if "k \<noteq> ''_id'' \<and> k \<noteq> ''id''" for k
    using that by (simp add: look mal)
  have 5: "map_of res ''id'' = map_option (textual_datetime isof) (map_of (h ! a) ''id'')"
    if "map_of (h ! a) ''_id'' = None \<or> map_of (h ! a) ''_id'' = Some VNone"
    using that by (auto simp add: look mal oid_def)
  show "\<exists>h'. serialize_doc py_str isof (Some a) h = (Some (length h), h') \<and>
         length h < length h' \<and>
         distinct (map fst (h' ! length h)) \<and>
         map_of (h' ! length h) ''_id'' = None \<and>
         (\<forall>v. map_of (h ! a) ''_id'' = Some v \<and> v \<noteq> VNone \<longrightarrow>
            map_of (h' ! length h) ''id'' = Some (VStr (py_str v))) \<and>
         (\<forall>k. k \<noteq> ''_id'' \<and> k \<noteq> ''id'' \<longrightarrow>
            map_of (h' ! length h) k = map_option (textual_datetime isof) (map_of (h ! a) k)) \<and>
         (map_of (h ! a) ''_id'' = None \<or> map_of (h ! a) ''_id'' = Some VNone \<longrightarrow>
            map_of (h' ! length h) ''id'' =
              map_option (textual_datetime isof) (map_of (h ! a) ''id''))"
    using run 1 2 3 4 5 by (intro exI [of _ "h @ [res]"]) simp
qed

theorem serialize_doc_fields_witness:
  "serialize_doc example_str example_isoformat None [example_doc] = (None, [example_doc]) \<and>
   serialize_doc example_str example_isoformat (Some 1) [example_doc, []] =
     (Some 1, [example_doc, []]) \<and>
   (0 :: nat) < length [example_doc] \<and> distinct (map fst ([example_doc] ! 0)) \<and>
   (\<exists>h'. serialize_doc example_str example_isoformat (Some 0) [example_doc] = (Some 1, h') \<and>
      map_of (h' ! 1) ''_id'' = None \<and>
      map_of (h' ! 1) ''id'' = Some (VStr ''65f0c0ffee'') \<and>
      map_of (h' ! 1) ''name'' = Some (VStr ''trip'') \<and>
      map_of (h' ! 1) ''created_at'' = Some (VStr ''2024-05-01T12:00:00''))"
proof -
  note none = serialize_doc_fields
    [where py_str = example_str and isof = example_isoformat and h = "[example_doc]",
     THEN conjunct1]
  note empty = serialize_doc_fields
    [where py_str = example_str and isof = example_isoformat and h = "[example_doc, []]"
       and a = 1, THEN conjunct2, THEN conjunct1]
  note full = serialize_doc_fields
    [where py_str = example_str and isof = example_isoformat and h = "[example_doc]"
       and a = 0, THEN conjunct2, THEN conjunct2]
  have pre: "(0 :: nat) < length [example_doc] \<and> [example_doc] ! 0 \<noteq> [] \<and>
      distinct (map fst ([example_doc] ! 0))"
    by (simp add: example_doc_def)
  from full pre obtain h' where
    run: "serialize_doc example_str example_isoformat (Some 0) [example_doc] = (Some 1, h')"
    and a: "map_of (h' ! 1) ''_id'' = None"
    and b: "\<forall>v. map_of example_doc ''_id'' = Some v \<and> v \<noteq> VNone \<longrightarrow>
            map_of (h' ! 1) ''id'' = Some (VStr (example_str v))"
    and c: "\<forall>k. k \<noteq> ''_id'' \<and> k \<noteq> ''id'' \<longrightarrow>
            map_of (h' ! 1) k = map_option (textual_datetime example_isoformat) (map_of example_doc k)"
    by auto
  from b have b': "map_of (h' ! 1) ''id'' = Some (VStr ''65f0c0ffee'')"
    by (simp add: example_doc_def example_str_def)
  from c have c1: "map_of (h' ! 1) ''name'' = Some (VStr ''trip'')"
    and c2: "map_of (h' ! 1) ''created_at'' = Some (VStr ''2024-05-01T12:00:00'')"
    by (simp_all add: example_doc_def textual_datetime_def example_isoformat_def)
  from none empty pre run a b' c1 c2 show ?thesis by auto
qed

text \<open>
  C10. Serialization changes no object that existed before the call: the store is the
  old one, followed by one new dict when the document is not empty, and the result then
  refers to that new dict. In particular the document passed in, with its \<open>_id\<close> and
  its datetime values, is afterwards what it was.
\<close>
theorem serialize_doc_keeps_objects:
  "serialize_doc py_str isof doc h = (r, h') \<Longrightarrow>
     take (length h) h' = h \<and>
     (\<forall>a. doc = Some a \<and> a < length h \<longrightarrow> h' ! a = h ! a) \<and>
     (\<forall>a. doc = Some a \<and> h ! a \<noteq> [] \<longrightarrow> r = Some (length h) \<and> length h' = Suc (length h))"
proof (cases doc)
  case None
  assume "serialize_doc py_str isof doc h = (r, h')"
  with None show ?thesis by (simp add: serialize_doc_def)
next
  case (Some a)
  assume run: "serialize_doc py_str isof doc h = (r, h')"
  show ?thesis
  proof (cases "h ! a = []")
    case True
    with run Some show ?thesis by (auto simp add: serialize_doc_def)
  next
    case False
    from run Some serialize_doc_Some [OF False, of py_str isof]
    obtain x where "r = Some (length h)" "h' = h @ [x]"
      by auto
    with Some False show ?thesis by (simp add: nth_append)
  qed
qed

theorem serialize_doc_keeps_objects_witness:
  "serialize_doc example_str example_isoformat (Some 0) [example_doc] =
     (Some 1,
      [example_doc,
       [(''name'', VStr ''trip''), (''created_at'', VStr ''2024-05-01T12:00:00''),
        (''id'', VStr ''65f0c0ffee'')]]) \<and>
   take (length [example_doc])
     [example_doc,
       [(''name'', VStr ''trip''), (''created_at'', VStr ''2024-05-01T12:00:00''),
        (''id'', VStr ''65f0c0ffee'')]] = [example_doc] \<and>
   [example_doc,
       [(''name'', VStr ''trip''), (''created_at'', VStr ''2024-05-01T12:00:00''),
        (''id'', VStr ''65f0c0ffee'')]] ! 0 = example_doc"
proof -
  have run: "serialize_doc example_str example_isoformat (Some 0) [example_doc] =
     (Some 1,
      [example_doc,
       [(''name'', VStr ''trip''), (''created_at'', VStr ''2024-05-01T12:00:00''),
        (''id'', VStr ''65f0c0ffee'')]])"
    by (simp add: serialize_doc_def dict_copy_def dict_pop_def dict_setitem_def dict_items_def
        isoformat_item_def example_doc_def example_str_def example_isoformat_def AList.delete_eq)
  from serialize_doc_keeps_objects [OF run] run show ?thesis
    by simp
qed

section \<open>The stored group\<close>

text \<open>
  What \<open>create_group\<close> writes: one group, whose members are the checked addresses of
  the normalised member list, its creator among them.
\<close>

lemma create_group_stores_creator:
  assumes "create_group ve p (db :: 'dt database) = (Inr i, db')"
  shows "\<exists>g. db' = db @ [(''group'', i, GroupDoc g)] \<and> i = length db \<and>
           name g = payload_name p \<and>
           map Some (members g) =
             map ve (create_group_members (payload_created_by p) (payload_members p)) \<and>
           created_by g \<in> set (members g)"
proof -
  let ?ms = "create_group_members (payload_created_by p) (payload_members p)"
  obtain r where r: "Group_init ve (Some (payload_name p)) (Some (payload_created_by p)) (Some ?ms)
             (Some (payload_default_currency p)) (payload_image_url p) = r"
    by simp
  from assms r obtain g where g: "r = Inr g"
    by (cases r) (simp_all add: create_group_def)
  from r g have init: "Group_init ve (Some (payload_name p)) (Some (payload_created_by p))
      (Some ?ms) (Some (payload_default_currency p)) (payload_image_url p) = Inr g"
    by simp
  from assms have db': "db' = db @ [(''group'', i, GroupDoc g)]" and i: "i = length db"
    by (auto simp add: create_group_def init create_document_def)
  from init have n: "name g = payload_name p"
    and c: "ve (payload_created_by p) = Some (created_by g)"
    and m: "map ve ?ms = map Some (members g)"
    by (auto simp: Group_init_Inr_iff)
  have "payload_created_by p \<in> set ?ms"
    by (simp add: create_group_members_def dict_fromkeys_keys set_first_occurrences)
  then have "ve (payload_created_by p) \<in> set (map ve ?ms)"
    by simp
  with c m have "created_by g \<in> set (members g)"
    by auto
  with db' i n m show ?thesis by simp
qed

end
